theory Spec2Isabelle
  imports Main "HOL-Library.Sublist"
begin

section \<open>Strings as the script reads them\<close>

text \<open>
  A JavaScript string is a sequence of code units. The model uses \<open>string\<close>, so it
  covers texts whose code units are below 256; \<open>length\<close> is the source's
  \<open>.length\<close>. The white space of \<open>trim()\<close> and of the regular expression class
  \<open>\s\<close> in that range is TAB, LF, VT, FF, CR, SPACE and NBSP.
\<close>

definition isUpperAZ :: "char \<Rightarrow> bool" where
  "isUpperAZ c \<longleftrightarrow> 65 \<le> (of_char c :: nat) \<and> (of_char c :: nat) \<le> 90"

definition isDigit :: "char \<Rightarrow> bool" where
  "isDigit c \<longleftrightarrow> 48 \<le> (of_char c :: nat) \<and> (of_char c :: nat) \<le> 57"

definition isWhiteSpace :: "char \<Rightarrow> bool" where
  "isWhiteSpace c \<longleftrightarrow> (of_char c :: nat) \<in> {9, 10, 11, 12, 13, 32, 160}"

definition toLowerChar :: "char \<Rightarrow> char" where
  "toLowerChar c =
     (let n = (of_char c :: nat)
      in if (65 \<le> n \<and> n \<le> 90) \<or> (192 \<le> n \<and> n \<le> 222 \<and> n \<noteq> 215)
         then char_of (n + 32) else c)"

definition toLowerCase :: "string \<Rightarrow> string" where
  "toLowerCase s = map toLowerChar s"

definition trim :: "string \<Rightarrow> string" where
  "trim s = rev (dropWhile isWhiteSpace (rev (dropWhile isWhiteSpace s)))"

text \<open>\<open>s.split(sep)\<close> for a one-character separator: always at least one piece.\<close>

fun split :: "char \<Rightarrow> string \<Rightarrow> string list" where
  "split sep [] = [[]]"
| "split sep (c # cs) =
     (if c = sep then [] # split sep cs
      else (case split sep cs of
              [] \<Rightarrow> [[c]]
            | w # ws \<Rightarrow> (c # w) # ws))"

text \<open>\<open>s.includes(w)\<close>: \<open>w\<close> occurs in \<open>s\<close> as a contiguous run.\<close>

fun str_includes :: "string \<Rightarrow> string \<Rightarrow> bool" where
  "str_includes [] w = (w = [])"
| "str_includes (c # cs) w = (take (length w) (c # cs) = w \<or> str_includes cs w)"

definition some :: "'a list \<Rightarrow> ('a \<Rightarrow> bool) \<Rightarrow> bool" where
  "some xs p = list_ex p xs"

definition every :: "'a list \<Rightarrow> ('a \<Rightarrow> bool) \<Rightarrow> bool" where
  "every xs p = list_all p xs"

text \<open>\<open>/^[A-Z]+$/\<close> and \<open>/^[A-Z\s]+$/\<close> (no flags: \<open>$\<close> is the end of the input).\<close>

definition allCapsWord :: "string \<Rightarrow> bool" where
  "allCapsWord w \<longleftrightarrow> w \<noteq> [] \<and> list_all isUpperAZ w"

definition allCapsOrSpace :: "string \<Rightarrow> bool" where
  "allCapsOrSpace w \<longleftrightarrow> w \<noteq> [] \<and> list_all (\<lambda>c. isUpperAZ c \<or> isWhiteSpace c) w"

section \<open>The line classifiers\<close>

definition isSceneHeading :: "string \<Rightarrow> bool" where
  "isSceneHeading line \<longleftrightarrow> take 4 line = ''INT.'' \<or> take 4 line = ''EXT.''"

text \<open>
  \<open>/^[A-Z]+,\s*\d+/\<close>: the greedy run of capitals is the only one that can be followed
  by a comma, and the greedy run of white space the only one followed by a digit.
\<close>

definition matchCapsCommaDigits :: "string \<Rightarrow> bool" where
  "matchCapsCommaDigits line \<longleftrightarrow>
     takeWhile isUpperAZ line \<noteq> [] \<and>
     (case dropWhile isUpperAZ line of
        [] \<Rightarrow> False
      | c # r \<Rightarrow> c = CHR '','' \<and>
          (case dropWhile isWhiteSpace r of [] \<Rightarrow> False | d # _ \<Rightarrow> isDigit d))"

text \<open>\<open>/^[A-Z]+\s+\(/\<close>\<close>

definition matchCapsSpaceParen :: "string \<Rightarrow> bool" where
  "matchCapsSpaceParen line \<longleftrightarrow>
     takeWhile isUpperAZ line \<noteq> [] \<and>
     takeWhile isWhiteSpace (dropWhile isUpperAZ line) \<noteq> [] \<and>
     (case dropWhile isWhiteSpace (dropWhile isUpperAZ line) of
        [] \<Rightarrow> False
      | p # _ \<Rightarrow> p = CHR ''('')"

definition isCharacterDescription :: "string \<Rightarrow> bool" where
  "isCharacterDescription line \<longleftrightarrow> matchCapsCommaDigits line \<or> matchCapsSpaceParen line"

definition isCharacterNameDirect :: "string \<Rightarrow> bool" where
  "isCharacterNameDirect line =
     (let words = split CHR '' '' line
      in if length words \<ge> 1 \<and> length words \<le> 4 then
           (let allCaps = every words (\<lambda>word. allCapsWord word \<and> length word > 1 \<and> length word \<le> 15);
                actionWords = [''THE'', ''AND'', ''OR'', ''BUT'', ''WITH'', ''FROM'', ''INTO'',
                               ''UPON'', ''UNDER'', ''OVER''];
                notActionWord = (\<not> some words (\<lambda>word. word \<in> set actionWords))
            in allCaps \<and> notActionWord)
         else False)"

definition isActionLine :: "string \<Rightarrow> bool" where
  "isActionLine line =
     (let actionWords = [''sits'', ''stands'', ''walks'', ''approaches'', ''looks'', ''turns'',
                         ''takes'', ''places'', ''rushes'', ''enjoy'', ''typing'', ''laptop''];
          hasActionWords = some actionWords (\<lambda>word. str_includes (toLowerCase line) word);
          isNotCharacterName = (\<not> isCharacterNameDirect line)
      in hasActionWords \<and> isNotCharacterName)"

definition isCharacterName :: "string \<Rightarrow> bool" where
  "isCharacterName line =
     (if isSceneHeading line \<or> isCharacterDescription line then False
      else isCharacterNameDirect line)"

text \<open>
  In \<open>isStageDirection\<close> the source's \<open>&&\<close> binds tighter than \<open>||\<close>: the
  stage-direction words only count together with an \<open>s\<close>, the four last tests count
  alone.
\<close>

definition isDialogue :: "string \<Rightarrow> bool" where
  "isDialogue line =
     (if isSceneHeading line \<or> isCharacterDescription line \<or> isCharacterNameDirect line then False
      else
        (let lower = toLowerCase line;
             stageDirectionWords = [''considers'', ''eyes'', ''light'', ''up'', ''places'', ''sits'',
                 ''approaches'', ''looks'', ''turns'', ''takes'', ''rushes'', ''enjoy'', ''typing'',
                 ''laptop'', ''fade'', ''end'', ''continues'', ''moves'', ''walks'', ''stands'',
                 ''enters'', ''exits''];
             isStageDirection =
               ((some stageDirectionWords (\<lambda>word. str_includes lower word) \<and>
                 (str_includes line ''s'' \<and> str_includes lower ''s'')) \<or>
                str_includes lower ''this'' \<or> str_includes lower ''moment'' \<or>
                str_includes lower ''eyes'' \<or> str_includes lower ''light'')
         in if isStageDirection then False
            else if allCapsOrSpace line \<and> length line > 3 then False
            else
              (let dialogueWords = [''I'', ''you'', ''the'', ''a'', ''an'', ''and'', ''or'', ''but'',
                       ''thanks'', ''hey'', ''hello'', ''yes'', ''no'', ''well'', ''okay'', ''sure'',
                       ''really'', ''what'', ''how'', ''why'', ''when'', ''where''];
                   hasDialogueWords = some dialogueWords (\<lambda>word. str_includes lower (toLowerCase word));
                   notAllCaps = (\<not> allCapsOrSpace line \<or> length line < 10);
                   hasDialoguePatterns =
                     (str_includes line ''?'' \<or> str_includes line ''!'' \<or> str_includes line ''.'' \<or>
                      str_includes lower ''i '' \<or> str_includes lower ''you '' \<or>
                      str_includes lower ''the '' \<or> str_includes lower ''a '' \<or>
                      str_includes lower ''an '' \<or> str_includes lower ''and '')
               in hasDialogueWords \<and> notAllCaps \<and> hasDialoguePatterns \<and> length line > 0)))"

section \<open>parseDialogue\<close>

record dialogue_line =
  number :: nat
  character :: string
  dialogue :: string

text \<open>A JavaScript \<open>Set\<close> keeps its members in insertion order, each once.\<close>

definition set_add :: "'a \<Rightarrow> 'a list \<Rightarrow> 'a list" where
  "set_add x xs = (if x \<in> set xs then xs else xs @ [x])"

definition set_delete :: "'a \<Rightarrow> 'a list \<Rightarrow> 'a list" where
  "set_delete x xs = filter (\<lambda>y. y \<noteq> x) xs"

text \<open>
  The loop's variables: \<open>lines\<close>, \<open>characters\<close>, \<open>lineNumber\<close> and
  \<open>currentCharacter\<close> (the empty string when no character is pending).
\<close>

record parse_state =
  ps_lines :: "dialogue_line list"
  ps_characters :: "string list"
  ps_lineNumber :: nat
  ps_currentCharacter :: string

definition parse_init :: parse_state where
  "parse_init = \<lparr>ps_lines = [], ps_characters = [], ps_lineNumber = 1, ps_currentCharacter = ''''\<rparr>"

text \<open>One iteration of the \<open>for\<close> loop on the trimmed line \<open>line\<close>.\<close>

definition parse_step :: "parse_state \<Rightarrow> string \<Rightarrow> parse_state" where
  "parse_step st line =
     (if isSceneHeading line \<or> isActionLine line \<or> isCharacterDescription line
      then st\<lparr>ps_currentCharacter := ''''\<rparr>
      else if isCharacterName line
      then st\<lparr>ps_currentCharacter := trim line\<rparr>
      else if ps_currentCharacter st \<noteq> '''' \<and> isDialogue line
      then st\<lparr>ps_characters := set_add (ps_currentCharacter st) (ps_characters st),
              ps_lines := ps_lines st @
                 [\<lparr>number = ps_lineNumber st, character = ps_currentCharacter st, dialogue = line\<rparr>],
              ps_lineNumber := Suc (ps_lineNumber st)\<rparr>
      else st)"

definition textLines :: "string \<Rightarrow> string list" where
  "textLines text = filter (\<lambda>line. length line > 0) (map trim (split (CHR 0x0A) text))"

definition parse_loop :: "parse_state \<Rightarrow> string list \<Rightarrow> parse_state" where
  "parse_loop st ls = foldl parse_step st ls"

text \<open>The result \<open>{ lines, characters }\<close> as a pair; \<open>fileName\<close> only feeds an unused flag.\<close>

definition parseDialogue :: "string \<Rightarrow> string \<Rightarrow> dialogue_line list \<times> string list" where
  "parseDialogue text fileName =
     (let st = parse_loop parse_init (textLines text)
      in (ps_lines st, ps_characters st))"


definition parse_inv :: "parse_state \<Rightarrow> bool" where
  "parse_inv st \<longleftrightarrow>
     set (ps_characters st) = character ` set (ps_lines st) \<and>
     distinct (ps_characters st) \<and>
     map number (ps_lines st) = [1..<ps_lineNumber st] \<and>
     ps_lineNumber st = Suc (length (ps_lines st))"

section \<open>The application state\<close>

text \<open>
  \<open>AppState\<close>, with the parts of the browser the handlers read and write: the pending
  timers of \<open>setTimeout\<close>, the audio elements that are playing, whether the speech
  recogniser is started, and the two production check boxes. A clip is the list of its
  bytes. Button states, styles and status messages are left out.
\<close>

type_synonym blob = "nat list"

datatype timer_action =
    UpdateProductionInterface
  | SpeechTimeout
  | DelayedAdvance
  | RestartRecognition
  | AutoNextLine

record timer =
  timer_id :: nat
  timer_delay :: nat
  timer_action :: timer_action

text \<open>
  \<open>recognition\<close> is \<open>None\<close> when the browser has no speech recognition, else
  \<open>Some started\<close>. \<open>speechTimeout\<close> holds a timer id (ids are positive, hence truthy)
  or \<open>None\<close> for \<open>null\<close>. \<open>mediaRecorder\<close> says whether a recorder has been created.
\<close>

record app_state =
  dialogueLines :: "dialogue_line list"
  characters :: "string list"
  recordCharacters :: "string list"
  speakCharacters :: "string list"
  audioRecordings :: "string \<rightharpoonup> (nat \<rightharpoonup> blob)"
  currentCharacter :: "string option"
  currentLineIndex :: nat
  isRecording :: bool
  mediaRecorder :: bool
  audioChunks :: "blob list"
  recognition :: "bool option"
  isProductionMode :: bool
  productionLineIndex :: nat
  speechTimeout :: "nat option"
  timers :: "timer list"
  nextTimerId :: nat
  playing :: "blob list"
  playRecordings :: bool
  liveSpeaking :: bool
  statusText :: string

definition setTimeout :: "timer_action \<Rightarrow> nat \<Rightarrow> app_state \<Rightarrow> nat \<times> app_state" where
  "setTimeout a d s =
     (nextTimerId s,
      s\<lparr>timers := timers s @ [\<lparr>timer_id = nextTimerId s, timer_delay = d, timer_action = a\<rparr>],
        nextTimerId := Suc (nextTimerId s)\<rparr>)"

definition clearTimeout :: "nat \<Rightarrow> app_state \<Rightarrow> app_state" where
  "clearTimeout i s = s\<lparr>timers := filter (\<lambda>t. timer_id t \<noteq> i) (timers s)\<rparr>"

text \<open>
  \<open>recognition.start()\<close> inside \<open>try\<close>: starting a started recogniser throws, the
  handler catches it and nothing changes. The guard \<open>recognition.state !== 'started'\<close>
  reads a property the recogniser does not have, so it never stops a call.
\<close>

definition recognition_start :: "app_state \<Rightarrow> app_state" where
  "recognition_start s = (case recognition s of None \<Rightarrow> s | Some _ \<Rightarrow> s\<lparr>recognition := Some True\<rparr>)"

definition recognition_stop :: "app_state \<Rightarrow> app_state" where
  "recognition_stop s = (case recognition s of None \<Rightarrow> s | Some _ \<Rightarrow> s\<lparr>recognition := Some False\<rparr>)"

text \<open>\<open>if (appState.speechTimeout) { clearTimeout(...); appState.speechTimeout = null; }\<close>\<close>

definition clearSpeechTimeout :: "app_state \<Rightarrow> app_state" where
  "clearSpeechTimeout s =
     (case speechTimeout s of
        None \<Rightarrow> s
      | Some i \<Rightarrow> (clearTimeout i s)\<lparr>speechTimeout := None\<rparr>)"

section \<open>Recording\<close>

definition characterLines :: "app_state \<Rightarrow> dialogue_line list" where
  "characterLines s =
     filter (\<lambda>line. Some (character line) = currentCharacter s) (dialogueLines s)"

text \<open>
  What \<open>updateRecordingInterface\<close> puts on the screen. It changes no field of the state;
  reading \<open>currentLine.number\<close> of a missing line is a TypeError.
\<close>

datatype display = Shown dialogue_line | NoDialogue | Finished | DisplayError

definition updateRecordingInterface :: "app_state \<Rightarrow> display" where
  "updateRecordingInterface s =
     (if length (characterLines s) = 0 then NoDialogue
      else if currentLineIndex s < length (characterLines s)
      then Shown (characterLines s ! currentLineIndex s)
      else DisplayError)"

definition startRecordingSession :: "app_state \<Rightarrow> app_state \<times> display option" where
  "startRecordingSession s =
     (case recordCharacters s of
        [] \<Rightarrow> (s, None)
      | c # _ \<Rightarrow>
          (let s' = s\<lparr>currentCharacter := Some c, currentLineIndex := 0\<rparr>
           in (s', Some (updateRecordingInterface s'))))"

text \<open>\<open>Array.prototype.indexOf\<close>: the first position, or \<open>-1\<close>.\<close>

fun indexOf :: "'a list \<Rightarrow> 'a \<Rightarrow> int" where
  "indexOf [] x = - 1"
| "indexOf (y # ys) x =
     (if x = y then 0 else (let i = indexOf ys x in if i < 0 then - 1 else i + 1))"

definition previousLine :: "app_state \<Rightarrow> app_state \<times> display option" where
  "previousLine s =
     (if currentLineIndex s > 0
      then (let s' = s\<lparr>currentLineIndex := currentLineIndex s - 1\<rparr>
            in (s', Some (updateRecordingInterface s')))
      else (s, None))"

text \<open>
  \<open>currentLineIndex < characterLines.length - 1\<close> is over the integers there;
  \<open>currentLineIndex + 1 < length\<close> says the same over \<open>nat\<close>.
\<close>

definition nextLine :: "app_state \<Rightarrow> app_state \<times> display" where
  "nextLine s =
     (if currentLineIndex s + 1 < length (characterLines s)
      then (let s' = s\<lparr>currentLineIndex := currentLineIndex s + 1\<rparr>
            in (s', updateRecordingInterface s'))
      else
        (let currentIndex = indexOf (map Some (recordCharacters s)) (currentCharacter s)
         in if currentIndex < int (length (recordCharacters s)) - 1
            then (let s' = s\<lparr>currentCharacter := Some (recordCharacters s ! nat (currentIndex + 1)),
                              currentLineIndex := 0\<rparr>
                  in (s', updateRecordingInterface s'))
            else (s, Finished)))"

definition skipLine :: "app_state \<Rightarrow> app_state \<times> display" where
  "skipLine s = nextLine s"

text \<open>
  \<open>stopRecording\<close>: the recorder's \<open>stop\<close> event arrives later; \<open>nextLine\<close> is called
  after one second.
\<close>

definition stopRecording :: "app_state \<Rightarrow> app_state" where
  "stopRecording s =
     (if mediaRecorder s \<and> isRecording s
      then snd (setTimeout AutoNextLine 1000 (recognition_stop (s\<lparr>isRecording := False\<rparr>)))
      else s)"

text \<open>
  \<open>applyPostProcessingEffects\<close> rejects an empty clip; otherwise the clip goes through
  the browser's decoder and offline renderer, taken here as the parameter \<open>webAudio\<close>,
  which yields the processed clip or fails with a message.
\<close>

definition applyPostProcessingEffects ::
  "(blob \<Rightarrow> string \<Rightarrow> string + blob) \<Rightarrow> blob \<Rightarrow> string \<Rightarrow> string + blob" where
  "applyPostProcessingEffects webAudio audioBlob effect =
     (if length audioBlob = 0 then Inl ''Audio blob is empty''
      else webAudio audioBlob effect)"

text \<open>The \<open>try\<close>/\<open>catch\<close> of the \<open>onstop\<close> handler around the post-processing.\<close>

definition processedAudioBlob ::
  "(blob \<Rightarrow> string \<Rightarrow> string + blob) \<Rightarrow> string \<Rightarrow> blob \<Rightarrow> blob" where
  "processedAudioBlob webAudio selectedEffect audioBlob =
     (if selectedEffect \<noteq> ''none''
      then (case applyPostProcessingEffects webAudio audioBlob selectedEffect of
              Inr processed \<Rightarrow> processed
            | Inl err \<Rightarrow> audioBlob)
      else audioBlob)"

datatype error = TypeError

text \<open>
  The \<open>onstop\<close> handler of the recorder. It reads the chunks and the current line from
  the state \<open>s\<close> in which it starts. With an effect selected it then awaits the
  post-processing, and the store that follows reads \<open>currentCharacter\<close> and
  \<open>audioRecordings\<close> from the state \<open>s'\<close> in which it resumes; without an effect there
  is no await and \<open>s' = s\<close>. A missing line or a missing map for the character is a
  TypeError.
\<close>

definition onstop_store :: "app_state \<Rightarrow> dialogue_line option \<Rightarrow> blob \<Rightarrow> error + app_state" where
  "onstop_store s' currentLine clip =
     (case currentCharacter s' of
        None \<Rightarrow> Inl TypeError
      | Some c \<Rightarrow>
         (case audioRecordings s' c of
            None \<Rightarrow> Inl TypeError
          | Some m \<Rightarrow>
             (case currentLine of
                None \<Rightarrow> Inl TypeError
              | Some line \<Rightarrow>
                  Inr (s'\<lparr>audioRecordings := (audioRecordings s')(c \<mapsto> m(number line \<mapsto> clip))\<rparr>))))"

definition mediaRecorder_onstop ::
  "(blob \<Rightarrow> string \<Rightarrow> string + blob) \<Rightarrow> string \<Rightarrow> app_state \<Rightarrow> app_state \<Rightarrow> error + app_state" where
  "mediaRecorder_onstop webAudio selectedEffect s s' =
     (let audioBlob = concat (audioChunks s);
          currentLine = (if currentLineIndex s < length (characterLines s)
                         then Some (characterLines s ! currentLineIndex s) else None)
      in onstop_store s' currentLine (processedAudioBlob webAudio selectedEffect audioBlob))"

section \<open>Production\<close>

definition advanceProductionLine :: "app_state \<Rightarrow> app_state" where
  "advanceProductionLine s =
     (let s1 = recognition_stop s;
          s2 = s1\<lparr>productionLineIndex := productionLineIndex s1 + 1\<rparr>
      in snd (setTimeout UpdateProductionInterface 500 s2))"

text \<open>\<open>playAudioBlob\<close>: a new audio element starts playing, its handlers armed.\<close>

definition playAudioBlob :: "blob \<Rightarrow> app_state \<Rightarrow> app_state" where
  "playAudioBlob audioBlob s = s\<lparr>playing := playing s @ [audioBlob]\<rparr>"

definition storedClip :: "app_state \<Rightarrow> dialogue_line \<Rightarrow> blob option" where
  "storedClip s line =
     (case audioRecordings s (character line) of
        None \<Rightarrow> None
      | Some m \<Rightarrow> m (number line))"

definition updateProductionInterface :: "app_state \<Rightarrow> app_state" where
  "updateProductionInterface s =
     (if productionLineIndex s \<ge> length (dialogueLines s)
      then clearSpeechTimeout (recognition_stop (s\<lparr>isProductionMode := False\<rparr>))
      else
        (let currentLine = dialogueLines s ! productionLineIndex s
         in if playRecordings s \<and> character currentLine \<in> set (recordCharacters s)
            then (case storedClip s currentLine of
                    Some audioBlob \<Rightarrow>
                      (playAudioBlob audioBlob s)\<lparr>statusText := ''Playing recorded audio''\<rparr>
                  | None \<Rightarrow>
                      advanceProductionLine (s\<lparr>statusText := ''No recording found for this line''\<rparr>))
            else if liveSpeaking s \<and> character currentLine \<in> set (speakCharacters s)
            then recognition_start (s\<lparr>statusText := ''Waiting for live speech...''\<rparr>)
            else advanceProductionLine (s\<lparr>statusText := ''Skipping line''\<rparr>)))"

definition startProduction :: "app_state \<Rightarrow> app_state" where
  "startProduction s =
     updateProductionInterface (s\<lparr>isProductionMode := True, productionLineIndex := 0\<rparr>)"

definition pauseProduction :: "app_state \<Rightarrow> app_state" where
  "pauseProduction s = s\<lparr>isProductionMode := False\<rparr>"

definition stopProduction :: "app_state \<Rightarrow> app_state" where
  "stopProduction s =
     updateProductionInterface
       (clearSpeechTimeout (recognition_stop (s\<lparr>isProductionMode := False, productionLineIndex := 0\<rparr>)))"

subsection \<open>The speech recogniser's handlers\<close>

definition completionWords :: "string list" where
  "completionWords = [''done'', ''finished'', ''complete'', ''next'', ''advance'', ''continue'']"

definition hasCompletionWord :: "string \<Rightarrow> bool" where
  "hasCompletionWord result = some completionWords (\<lambda>word. str_includes result word)"

text \<open>\<open>speakCharacters.has(dialogueLines[productionLineIndex]?.character)\<close>\<close>

definition currentLineIsSpoken :: "app_state \<Rightarrow> bool" where
  "currentLineIsSpoken s \<longleftrightarrow>
     productionLineIndex s < length (dialogueLines s) \<and>
     character (dialogueLines s ! productionLineIndex s) \<in> set (speakCharacters s)"

definition dialogueMatches :: "string \<Rightarrow> string \<Rightarrow> bool" where
  "dialogueMatches lineDialogue result =
     (let dialogueWords = filter (\<lambda>word. length word > 3) (split CHR '' '' (toLowerCase lineDialogue));
          spokenWords = filter (\<lambda>word. length word > 3) (split CHR '' '' result);
          matchingWords = filter (\<lambda>word. word \<in> set dialogueWords) spokenWords;
          isVeryShortDialogue = (length (split CHR '' '' lineDialogue) \<le> 2)
      in length matchingWords \<ge> 2 \<or>
         (length matchingWords \<ge> 1 \<and> length spokenWords \<le> 3) \<or>
         (isVeryShortDialogue \<and> length (trim result) > 0))"

definition recognition_onresult :: "string \<Rightarrow> app_state \<Rightarrow> app_state" where
  "recognition_onresult transcript s =
     (let result = toLowerCase transcript;
          s1 = clearSpeechTimeout s
      in if isRecording s1 \<and> hasCompletionWord result then stopRecording s1
         else if isProductionMode s1 \<and> hasCompletionWord result then advanceProductionLine s1
         else if isProductionMode s1 then
           (if currentLineIsSpoken s1 \<and>
               dialogueMatches (dialogue (dialogueLines s1 ! productionLineIndex s1)) result
            then snd (setTimeout DelayedAdvance 1000 s1)
            else s1)
         else s1)"

definition recognition_onend :: "app_state \<Rightarrow> app_state" where
  "recognition_onend s =
     (if isProductionMode s \<and> currentLineIsSpoken s
      then
        (let s1 = (case speechTimeout s of None \<Rightarrow> s | Some i \<Rightarrow> clearTimeout i s);
             s2 = snd (setTimeout SpeechTimeout 30000 s1);
             s3 = s2\<lparr>speechTimeout := Some (fst (setTimeout SpeechTimeout 30000 s1))\<rparr>
         in snd (setTimeout RestartRecognition 100 s3))
      else s)"

subsection \<open>Events\<close>

text \<open>What each kind of timer runs when it fires.\<close>

fun timer_callback :: "timer_action \<Rightarrow> app_state \<Rightarrow> app_state" where
  "timer_callback UpdateProductionInterface s = updateProductionInterface s"
| "timer_callback SpeechTimeout s =
     (if isProductionMode s \<and> currentLineIsSpoken s then advanceProductionLine s else s)"
| "timer_callback DelayedAdvance s = advanceProductionLine s"
| "timer_callback RestartRecognition s = (if isProductionMode s then recognition_start s else s)"
| "timer_callback AutoNextLine s = fst (nextLine s)"

text \<open>
  The events the page reacts to during production: a pending timer fires, an audio
  element ends or fails, the recogniser delivers a transcript or ends, a button is
  clicked. An event for a timer or an audio element that is not there does nothing.
\<close>

datatype event =
    TimerFired nat
  | AudioEnded nat
  | AudioError nat
  | SpeechResult string
  | RecognitionEnd
  | ClickStart
  | ClickPause
  | ClickStop

fun fire :: "event \<Rightarrow> app_state \<Rightarrow> app_state" where
  "fire (TimerFired i) s =
     (case filter (\<lambda>t. timer_id t = i) (timers s) of
        [] \<Rightarrow> s
      | t # _ \<Rightarrow> timer_callback (timer_action t) (clearTimeout i s))"
| "fire (AudioEnded k) s =
     (if k < length (playing s)
      then advanceProductionLine (s\<lparr>playing := take k (playing s) @ drop (Suc k) (playing s)\<rparr>)
      else s)"
| "fire (AudioError k) s =
     (if k < length (playing s)
      then advanceProductionLine (s\<lparr>playing := take k (playing s) @ drop (Suc k) (playing s)\<rparr>)
      else s)"
| "fire (SpeechResult transcript) s =
     (case recognition s of None \<Rightarrow> s | Some _ \<Rightarrow> recognition_onresult transcript s)"
| "fire RecognitionEnd s =
     (case recognition s of None \<Rightarrow> s | Some _ \<Rightarrow> recognition_onend (s\<lparr>recognition := Some False\<rparr>))"
| "fire ClickStart s = startProduction s"
| "fire ClickPause s = pauseProduction s"
| "fire ClickStop s = stopProduction s"

definition run :: "event list \<Rightarrow> app_state \<Rightarrow> app_state" where
  "run es s = foldl (\<lambda>s e. fire e s) s es"

definition resets :: "event \<Rightarrow> bool" where
  "resets e \<longleftrightarrow> e = ClickStart \<or> e = ClickStop"

section \<open>A sample script and session\<close>

definition sample_script :: string where
  "sample_script =
     ''INT. CAFE - DAY'' @ [CHR 0x0A] @
     ''SARAH, 28, sits at a table'' @ [CHR 0x0A] @
     ''  JOHN  '' @ [CHR 0x0A] @
     ''Hey, Sarah! Thanks for waiting.'' @ [CHR 0x0A] @
     [CHR 0x0A] @
     ''SARAH'' @ [CHR 0x0A] @
     ''No problem. I just got here.'' @ [CHR 0x0A] @
     ''John sits down.'' @ [CHR 0x0A] @
     ''What about you?'' @ [CHR 0x0A] @
     ''JOHN'' @ [CHR 0x0A] @
     ''Well, I was worried you left.''"

definition sample_lines :: "dialogue_line list" where
  "sample_lines =
     [\<lparr>number = 1, character = ''JOHN'', dialogue = ''Hey, Sarah! Thanks for waiting.''\<rparr>,
      \<lparr>number = 2, character = ''SARAH'', dialogue = ''No problem. I just got here.''\<rparr>,
      \<lparr>number = 3, character = ''JOHN'', dialogue = ''Well, I was worried you left.''\<rparr>]"

text \<open>
  JOHN is recorded and has a clip for line 1; SARAH is spoken live; production is on at
  the first line, both options checked.
\<close>

definition sample_state :: app_state where
  "sample_state =
     \<lparr>dialogueLines = sample_lines,
      characters = [''JOHN'', ''SARAH''],
      recordCharacters = [''JOHN''],
      speakCharacters = [''SARAH''],
      audioRecordings = [''JOHN'' \<mapsto> [1 \<mapsto> [82, 73, 70, 70]]],
      currentCharacter = Some ''JOHN'',
      currentLineIndex = 0,
      isRecording = False,
      mediaRecorder = True,
      audioChunks = [[82, 73], [70, 70]],
      recognition = Some False,
      isProductionMode = True,
      productionLineIndex = 0,
      speechTimeout = None,
      timers = [],
      nextTimerId = 1,
      playing = [],
      playRecordings = True,
      liveSpeaking = True,
      statusText = []\<rparr>"

text \<open>A recording session in which both characters are recorded, at JOHN's second line.\<close>

definition sample_recording :: app_state where
  "sample_recording =
     sample_state\<lparr>recordCharacters := [''JOHN'', ''SARAH''],
                  audioRecordings := [''JOHN'' \<mapsto> Map.empty, ''SARAH'' \<mapsto> Map.empty],
                  currentLineIndex := 1,
                  isProductionMode := False\<rparr>"

text \<open>The same production with no character selected: every line is skipped.\<close>

definition skipping_state :: app_state where
  "skipping_state = sample_state\<lparr>recordCharacters := [], speakCharacters := []\<rparr>"

text \<open>The parser's loop state with a pending character and nothing emitted yet.\<close>

definition pending_state :: "string \<Rightarrow> parse_state" where
  "pending_state c = parse_init\<lparr>ps_currentCharacter := c\<rparr>"

text \<open>A browser whose audio pipeline fails on every clip, and one that doubles every byte.\<close>

definition failingAudio :: "blob \<Rightarrow> string \<Rightarrow> string + blob" where
  "failingAudio audioBlob effect = Inl ''EncodingError''"

definition doublingAudio :: "blob \<Rightarrow> string \<Rightarrow> string + blob" where
  "doublingAudio audioBlob effect = Inr (map (\<lambda>b. 2 * b) audioBlob)"

section \<open>Two interleavings of the page's own timers\<close>

text \<open>The states a sequence of events goes through, the first one included.\<close>

fun trace :: "event list \<Rightarrow> app_state \<Rightarrow> app_state list" where
  "trace [] s = [s]"
| "trace (e # es) s = s # trace es (fire e s)"

text \<open>
  A production in which SARAH is spoken live, BOB is not selected and JOHN is recorded,
  with a clip for his line; production has not been started.
\<close>

definition race_lines :: "dialogue_line list" where
  "race_lines =
     [\<lparr>number = 1, character = ''SARAH'', dialogue = ''No problem. I just got here.''\<rparr>,
      \<lparr>number = 2, character = ''BOB'', dialogue = ''Hello there, you two.''\<rparr>,
      \<lparr>number = 3, character = ''JOHN'', dialogue = ''Well, I was worried you left.''\<rparr>]"

definition race_state :: app_state where
  "race_state =
     sample_state\<lparr>dialogueLines := race_lines,
                  characters := [''SARAH'', ''BOB'', ''JOHN''],
                  audioRecordings := [''JOHN'' \<mapsto> [3 \<mapsto> [7, 7]]],
                  isProductionMode := False\<rparr>"

text \<open>
  Start; SARAH's line is spoken and recognised (a match with the dialogue arms the delayed
  advance, timer 1); recognition ends and is restarted (timer 3); the speaker says "next"
  (advance at once, display timer 4); the delayed advance fires (display timer 5); the
  two display timers fire.
\<close>

definition race_events :: "event list" where
  "race_events =
     [ClickStart, SpeechResult ''just here'', RecognitionEnd, TimerFired 3,
      SpeechResult ''next'', TimerFired 1, TimerFired 4, TimerFired 5]"

text \<open>The same with SARAH's line alone, and the display firing before the delayed advance.\<close>

definition short_state :: app_state where
  "short_state = race_state\<lparr>dialogueLines := take 1 race_lines\<rparr>"

definition short_events :: "event list" where
  "short_events =
     [ClickStart, SpeechResult ''just here'', RecognitionEnd, TimerFired 3,
      SpeechResult ''next'', TimerFired 4, TimerFired 1]"

text \<open>
  JOHN's last line is being recorded and the recording is stopped: \<open>stopRecording\<close> arms
  the timer that calls \<open>nextLine\<close>; in the second state that timer has fired.
\<close>

definition recording_stopped :: app_state where
  "recording_stopped = stopRecording (sample_recording\<lparr>isRecording := True\<rparr>)"

definition recording_moved_on :: app_state where
  "recording_moved_on = fire (TimerFired 1) recording_stopped"

text \<open>What is seen of a state: the index, production mode, the clips playing, the status.\<close>

definition observe :: "app_state \<Rightarrow> nat \<times> bool \<times> blob list \<times> string" where
  "observe s = (productionLineIndex s, isProductionMode s, playing s, statusText s)"

section \<open>Facts about the parser\<close>

lemma set_add_set: "set (set_add x xs) = insert x (set xs)"
  by (auto simp: set_add_def)

lemma set_add_distinct: "distinct xs \<Longrightarrow> distinct (set_add x xs)"
  by (simp add: set_add_def)

lemma parse_inv_init: "parse_inv parse_init"
  by (simp add: parse_inv_def parse_init_def)

lemma parse_inv_step: "parse_inv st \<Longrightarrow> parse_inv (parse_step st line)"
  by (auto simp: parse_inv_def parse_step_def set_add_set set_add_distinct)

lemma parse_inv_loop: "parse_inv st \<Longrightarrow> parse_inv (parse_loop st ls)"
  unfolding parse_loop_def
  by (induction ls arbitrary: st) (simp_all add: parse_inv_step)

lemma parse_inv_result: "parse_inv (parse_loop parse_init (textLines script))"
  by (rule parse_inv_loop [OF parse_inv_init])

lemma sample_parse:
  "parseDialogue sample_script ''scene.txt'' = (sample_lines, [''JOHN'', ''SARAH''])"
  unfolding sample_script_def sample_lines_def by code_simp

text \<open>
  C5: the character set returned by \<open>parseDialogue\<close> is exactly the set of characters of
  the returned records, each listed once.
\<close>

theorem parseDialogue_characters:
  "set (snd (parseDialogue script fileName)) = character ` set (fst (parseDialogue script fileName)) \<and>
   distinct (snd (parseDialogue script fileName))"
  using parse_inv_result [of script] by (simp add: parseDialogue_def parse_inv_def Let_def)

theorem parseDialogue_characters_witness:
  "set [''JOHN'', ''SARAH''] = character ` set sample_lines \<and> distinct [''JOHN'', ''SARAH'']"
  using parseDialogue_characters [of sample_script "''scene.txt''"]
  unfolding sample_parse by simp

text \<open>
  C9: the \<open>number\<close> fields of the returned records are 1, 2, ..., n in output order,
  whatever the text; they count emitted records, not lines of the text.
\<close>

theorem parseDialogue_numbers:
  "map number (fst (parseDialogue script fileName)) =
     [1..<Suc (length (fst (parseDialogue script fileName)))]"
  using parse_inv_result [of script] by (simp add: parseDialogue_def parse_inv_def Let_def)

theorem parseDialogue_numbers_witness:
  "map number sample_lines = [1..<Suc (length sample_lines)] \<and>
   map number sample_lines = [1, 2, 3] \<and>
   map dialogue sample_lines =
     [''Hey, Sarah! Thanks for waiting.'', ''No problem. I just got here.'',
      ''Well, I was worried you left.'']"
proof -
  have "map number sample_lines = [1..<Suc (length sample_lines)]"
    using parseDialogue_numbers [of sample_script "''scene.txt''"]
    unfolding sample_parse by simp
  then show ?thesis by (simp add: sample_lines_def)
qed

section \<open>Facts about production\<close>

lemma idx_setTimeout [simp]: "productionLineIndex (snd (setTimeout a d s)) = productionLineIndex s"
  by (simp add: setTimeout_def)

lemma idx_clearTimeout [simp]: "productionLineIndex (clearTimeout i s) = productionLineIndex s"
  by (simp add: clearTimeout_def)

lemma idx_recognition_stop [simp]: "productionLineIndex (recognition_stop s) = productionLineIndex s"
  by (simp add: recognition_stop_def split: option.splits)

lemma idx_recognition_start [simp]: "productionLineIndex (recognition_start s) = productionLineIndex s"
  by (simp add: recognition_start_def split: option.splits)

lemma idx_clearSpeechTimeout [simp]: "productionLineIndex (clearSpeechTimeout s) = productionLineIndex s"
  by (simp add: clearSpeechTimeout_def split: option.splits)

lemma idx_advance [simp]: "productionLineIndex (advanceProductionLine s) = Suc (productionLineIndex s)"
  by (simp add: advanceProductionLine_def Let_def)

lemma idx_stopRecording [simp]: "productionLineIndex (stopRecording s) = productionLineIndex s"
  by (simp add: stopRecording_def)

lemma idx_nextLine [simp]: "productionLineIndex (fst (nextLine s)) = productionLineIndex s"
  by (simp add: nextLine_def Let_def)

lemma idx_update:
  "productionLineIndex (updateProductionInterface s) = productionLineIndex s \<or>
   productionLineIndex (updateProductionInterface s) = Suc (productionLineIndex s)"
  by (simp add: updateProductionInterface_def Let_def playAudioBlob_def split: option.splits)

lemma idx_onresult:
  "productionLineIndex (recognition_onresult t s) = productionLineIndex s \<or>
   productionLineIndex (recognition_onresult t s) = Suc (productionLineIndex s)"
  by (simp add: recognition_onresult_def Let_def)

lemma idx_onend [simp]: "productionLineIndex (recognition_onend s) = productionLineIndex s"
  by (simp add: recognition_onend_def Let_def split: option.splits)

lemma idx_timer_callback:
  "productionLineIndex (timer_callback a s) = productionLineIndex s \<or>
   productionLineIndex (timer_callback a s) = Suc (productionLineIndex s)"
  using idx_update [of s] by (cases a) simp_all

lemma idx_fire:
  "\<not> resets e \<Longrightarrow>
   productionLineIndex (fire e s) = productionLineIndex s \<or>
   productionLineIndex (fire e s) = Suc (productionLineIndex s)"
proof (cases e)
  case (TimerFired i)
  show ?thesis
  proof (cases "filter (\<lambda>t. timer_id t = i) (timers s)")
    case Nil
    with TimerFired show ?thesis by simp
  next
    case (Cons t ts)
    with TimerFired idx_timer_callback [of "timer_action t" "clearTimeout i s"]
    show ?thesis by simp
  qed
next
  case (SpeechResult t)
  with idx_onresult [of t s] show ?thesis by (simp split: option.splits)
qed (simp_all add: resets_def pauseProduction_def split: option.splits)

lemma idx_run:
  "\<forall>e\<in>set es. \<not> resets e \<Longrightarrow> productionLineIndex s \<le> productionLineIndex (run es s)"
  unfolding run_def
proof (induction es arbitrary: s)
  case Nil
  show ?case by simp
next
  case (Cons e es)
  from Cons.prems have "\<not> resets e" by simp
  from idx_fire [OF this, of s]
  have "productionLineIndex s \<le> productionLineIndex (fire e s)" by auto
  moreover from Cons.IH [of "fire e s"] Cons.prems
  have "productionLineIndex (fire e s) \<le>
        productionLineIndex (foldl (\<lambda>s e. fire e s) (fire e s) es)" by simp
  ultimately show ?case by simp
qed

lemma sample_fields:
  "dialogueLines sample_state = sample_lines"
  "recordCharacters sample_state = [''JOHN'']"
  "speakCharacters sample_state = [''SARAH'']"
  "audioRecordings sample_state = [''JOHN'' \<mapsto> [1 \<mapsto> [82, 73, 70, 70]]]"
  "currentCharacter sample_state = Some ''JOHN''"
  "currentLineIndex sample_state = 0"
  "isRecording sample_state = False"
  "mediaRecorder sample_state = True"
  "audioChunks sample_state = [[82, 73], [70, 70]]"
  "recognition sample_state = Some False"
  "isProductionMode sample_state = True"
  "productionLineIndex sample_state = 0"
  "speechTimeout sample_state = None"
  "timers sample_state = []"
  "nextTimerId sample_state = 1"
  "playing sample_state = []"
  "playRecordings sample_state = True"
  "liveSpeaking sample_state = True"
  by (simp_all add: sample_state_def)

lemma sample_lines_nth:
  "length sample_lines = 3"
  "sample_lines ! 0 =
     \<lparr>number = 1, character = ''JOHN'', dialogue = ''Hey, Sarah! Thanks for waiting.''\<rparr>"
  "sample_lines ! Suc 0 =
     \<lparr>number = 2, character = ''SARAH'', dialogue = ''No problem. I just got here.''\<rparr>"
  "sample_lines ! 2 =
     \<lparr>number = 3, character = ''JOHN'', dialogue = ''Well, I was worried you left.''\<rparr>"
  by (simp_all add: sample_lines_def)

text \<open>
  C3: a line whose character is neither recorded nor spoken live is skipped by
  \<open>updateProductionInterface\<close> itself: the index moves on by one, no clip starts, the
  recogniser is not listening, and the next display is scheduled.
\<close>

theorem auto_skip_line:
  assumes "productionLineIndex s < length (dialogueLines s)"
    and "character (dialogueLines s ! productionLineIndex s) \<notin> set (recordCharacters s)"
    and "character (dialogueLines s ! productionLineIndex s) \<notin> set (speakCharacters s)"
  shows "productionLineIndex (updateProductionInterface s) = productionLineIndex s + 1 \<and>
         playing (updateProductionInterface s) = playing s \<and>
         recognition (updateProductionInterface s) \<noteq> Some True \<and>
         statusText (updateProductionInterface s) = ''Skipping line'' \<and>
         isProductionMode (updateProductionInterface s) = isProductionMode s \<and>
         timers (updateProductionInterface s) =
           timers s @ [\<lparr>timer_id = nextTimerId s, timer_delay = 500,
                        timer_action = UpdateProductionInterface\<rparr>]"
  using assms
  by (simp add: updateProductionInterface_def Let_def advanceProductionLine_def setTimeout_def
      recognition_stop_def split: option.splits)

theorem auto_skip_line_witness:
  "productionLineIndex
     (updateProductionInterface (sample_state\<lparr>recordCharacters := [], speakCharacters := []\<rparr>)) = 1 \<and>
   playing
     (updateProductionInterface (sample_state\<lparr>recordCharacters := [], speakCharacters := []\<rparr>)) = [] \<and>
   recognition
     (updateProductionInterface (sample_state\<lparr>recordCharacters := [], speakCharacters := []\<rparr>))
     \<noteq> Some True"
  using auto_skip_line [of "sample_state\<lparr>recordCharacters := [], speakCharacters := []\<rparr>"]
  by (simp add: sample_fields sample_lines_nth)

text \<open>
  C1, as the code has it: with the play-recordings option checked, a line of a recorded
  character that has a stored clip starts that clip and leaves the index in place, and the
  end (or failure) of that playback advances the index by one; a line with no stored clip
  is skipped at once and nothing is played. With the option unchecked no clip is played:
  the line is waited on as a live line when its character is spoken live and that option
  is checked, and is skipped at once otherwise.
\<close>

theorem play_recorded_line:
  assumes "productionLineIndex s < length (dialogueLines s)"
    and "character (dialogueLines s ! productionLineIndex s) \<in> set (recordCharacters s)"
  shows "(playRecordings s \<longrightarrow>
          (case storedClip s (dialogueLines s ! productionLineIndex s) of
             Some clip \<Rightarrow>
               playing (updateProductionInterface s) = playing s @ [clip] \<and>
               productionLineIndex (updateProductionInterface s) = productionLineIndex s \<and>
               timers (updateProductionInterface s) = timers s \<and>
               recognition (updateProductionInterface s) = recognition s \<and>
               productionLineIndex
                 (fire (AudioEnded (length (playing s))) (updateProductionInterface s)) =
                 productionLineIndex s + 1 \<and>
               playing (fire (AudioEnded (length (playing s))) (updateProductionInterface s)) =
                 playing s \<and>
               productionLineIndex
                 (fire (AudioError (length (playing s))) (updateProductionInterface s)) =
                 productionLineIndex s + 1
           | None \<Rightarrow>
               playing (updateProductionInterface s) = playing s \<and>
               productionLineIndex (updateProductionInterface s) = productionLineIndex s + 1)) \<and>
         (\<not> playRecordings s \<longrightarrow>
            playing (updateProductionInterface s) = playing s \<and>
            (if liveSpeaking s \<and>
                character (dialogueLines s ! productionLineIndex s) \<in> set (speakCharacters s)
             then productionLineIndex (updateProductionInterface s) = productionLineIndex s \<and>
                  timers (updateProductionInterface s) = timers s \<and>
                  recognition (updateProductionInterface s) =
                    map_option (\<lambda>_. True) (recognition s)
             else productionLineIndex (updateProductionInterface s) = productionLineIndex s + 1 \<and>
                  recognition (updateProductionInterface s) \<noteq> Some True \<and>
                  timers (updateProductionInterface s) =
                    timers s @ [\<lparr>timer_id = nextTimerId s, timer_delay = 500,
                                 timer_action = UpdateProductionInterface\<rparr>]))"
  using assms
  by (simp add: updateProductionInterface_def Let_def playAudioBlob_def advanceProductionLine_def
      setTimeout_def recognition_stop_def recognition_start_def split: option.splits)

theorem play_recorded_line_witness:
  "playing (updateProductionInterface sample_state) = [[82, 73, 70, 70]] \<and>
   productionLineIndex (updateProductionInterface sample_state) = 0 \<and>
   productionLineIndex (fire (AudioEnded 0) (updateProductionInterface sample_state)) = 1 \<and>
   playing (fire (AudioEnded 0) (updateProductionInterface sample_state)) = [] \<and>
   playing (updateProductionInterface (sample_state\<lparr>productionLineIndex := 2\<rparr>)) = [] \<and>
   productionLineIndex (updateProductionInterface (sample_state\<lparr>productionLineIndex := 2\<rparr>)) = 3 \<and>
   playing (updateProductionInterface (sample_state\<lparr>playRecordings := False\<rparr>)) = [] \<and>
   productionLineIndex (updateProductionInterface (sample_state\<lparr>playRecordings := False\<rparr>)) = 1 \<and>
   playing (updateProductionInterface
     (sample_state\<lparr>playRecordings := False, speakCharacters := [''JOHN'']\<rparr>)) = [] \<and>
   productionLineIndex (updateProductionInterface
     (sample_state\<lparr>playRecordings := False, speakCharacters := [''JOHN'']\<rparr>)) = 0 \<and>
   recognition (updateProductionInterface
     (sample_state\<lparr>playRecordings := False, speakCharacters := [''JOHN'']\<rparr>)) = Some True"
  using play_recorded_line [of sample_state]
    play_recorded_line [of "sample_state\<lparr>productionLineIndex := 2\<rparr>"]
    play_recorded_line [of "sample_state\<lparr>playRecordings := False\<rparr>"]
    play_recorded_line [of "sample_state\<lparr>playRecordings := False, speakCharacters := [''JOHN'']\<rparr>"]
  by (simp add: sample_fields sample_lines_nth storedClip_def advanceProductionLine_def
      setTimeout_def recognition_stop_def Let_def split: option.splits)

text \<open>
  The claim as stated fails: JOHN is recorded and has a clip for the first line, production
  is on, but with the play-recordings option unchecked the clip is not played and the index
  has moved on at once; and with the option checked, JOHN's third line, which has no clip,
  is passed without any playback.
\<close>

theorem play_recorded_line_counterexample:
  "isProductionMode (sample_state\<lparr>playRecordings := False\<rparr>) \<and>
   character (dialogueLines (sample_state\<lparr>playRecordings := False\<rparr>) ! 0) \<in>
     set (recordCharacters (sample_state\<lparr>playRecordings := False\<rparr>)) \<and>
   productionLineIndex (sample_state\<lparr>playRecordings := False\<rparr>) = 0 \<and>
   storedClip (sample_state\<lparr>playRecordings := False\<rparr>)
     (dialogueLines (sample_state\<lparr>playRecordings := False\<rparr>) ! 0) = Some [82, 73, 70, 70] \<and>
   playing (updateProductionInterface (sample_state\<lparr>playRecordings := False\<rparr>)) = [] \<and>
   productionLineIndex (updateProductionInterface (sample_state\<lparr>playRecordings := False\<rparr>)) = 1 \<and>
   character (dialogueLines sample_state ! 2) \<in> set (recordCharacters sample_state) \<and>
   playing (updateProductionInterface (sample_state\<lparr>productionLineIndex := 2\<rparr>)) = [] \<and>
   productionLineIndex (updateProductionInterface (sample_state\<lparr>productionLineIndex := 2\<rparr>)) = 3"
  by (simp add: sample_fields sample_lines_nth storedClip_def updateProductionInterface_def Let_def
      advanceProductionLine_def setTimeout_def recognition_stop_def)

section \<open>The classification of lines\<close>

lemma dropWhile_idem: "dropWhile P (dropWhile P xs) = dropWhile P xs"
  by (induction xs) auto

lemma dropWhile_hd_id: "xs = [] \<or> \<not> P (hd xs) \<Longrightarrow> dropWhile P xs = xs"
  by (cases xs) auto

lemma trim_trim: "trim (trim s) = trim s"
proof -
  define t where "t = dropWhile isWhiteSpace s"
  define u where "u = dropWhile isWhiteSpace (rev t)"
  have "rev t = takeWhile isWhiteSpace (rev t) @ u"
    unfolding u_def by simp
  then have "rev (rev t) = rev (takeWhile isWhiteSpace (rev t) @ u)"
    by simp
  then have tu: "t = rev u @ rev (takeWhile isWhiteSpace (rev t))"
    by simp
  have ht: "t = [] \<or> \<not> isWhiteSpace (hd t)"
    unfolding t_def using hd_dropWhile [of isWhiteSpace s] by blast
  have "rev u = [] \<or> \<not> isWhiteSpace (hd (rev u))"
  proof (cases "u = []")
    case True
    then show ?thesis by simp
  next
    case False
    then have "hd t = hd (rev u)"
      using tu by (metis hd_append2 rev_is_Nil_conv)
    moreover have "t \<noteq> []" using tu False by auto
    ultimately show ?thesis using ht by simp
  qed
  then have a: "dropWhile isWhiteSpace (rev u) = rev u"
    by (rule dropWhile_hd_id)
  have b: "dropWhile isWhiteSpace u = u"
    unfolding u_def by (rule dropWhile_idem)
  have "trim s = rev u" by (simp add: trim_def t_def u_def)
  then show ?thesis by (simp add: trim_def a b)
qed

lemma textLines_trimmed: "l \<in> set (textLines script) \<Longrightarrow> l \<noteq> [] \<and> trim l = l"
  by (auto simp: textLines_def trim_trim)

lemma skip_not_name:
  "isSceneHeading line \<or> isActionLine line \<or> isCharacterDescription line \<Longrightarrow> \<not> isCharacterName line"
  by (auto simp: isCharacterName_def isActionLine_def Let_def)

lemma parse_step_no_pending:
  "ps_currentCharacter st = '''' \<Longrightarrow> \<not> isCharacterName line \<Longrightarrow>
   ps_lines (parse_step st line) = ps_lines st \<and> ps_currentCharacter (parse_step st line) = ''''"
  by (simp add: parse_step_def)

lemma parse_loop_no_pending:
  "ps_currentCharacter st = '''' \<Longrightarrow> \<forall>l\<in>set ls. \<not> isCharacterName l \<Longrightarrow>
   ps_lines (parse_loop st ls) = ps_lines st"
  unfolding parse_loop_def
proof (induction ls arbitrary: st)
  case Nil
  show ?case by simp
next
  case (Cons l ls)
  from Cons.prems have s: "ps_lines (parse_step st l) = ps_lines st"
    and p: "ps_currentCharacter (parse_step st l) = ''''"
    using parse_step_no_pending [of st l] by simp_all
  from Cons.IH [OF p] Cons.prems(2) s show ?case by simp
qed

lemma sample_classes:
  "isActionLine ''John sits down.''"
  "isDialogue ''What about you?''"
  "\<not> isCharacterName ''What about you?''"
  "\<not> isSceneHeading ''What about you?''"
  "\<not> isActionLine ''What about you?''"
  "\<not> isCharacterDescription ''What about you?''"
  by code_simp+

text \<open>
  C4: the loop only sees trimmed, non-empty lines. A scene heading, an action line or a
  character description emits nothing and clears the pending character (and is never
  taken as a character name); while no character is pending, nothing is emitted until a
  character-name line comes; and a record is emitted only for a line that looks like
  dialogue, is in none of the skipped classes, and meets a pending character.
\<close>

theorem parse_step_classification:
  "(\<forall>l\<in>set (textLines script). l \<noteq> [] \<and> trim l = l) \<and>
   fst (parseDialogue script fileName) = ps_lines (parse_loop parse_init (textLines script)) \<and>
   (isSceneHeading line \<or> isActionLine line \<or> isCharacterDescription line \<longrightarrow>
      ps_lines (parse_step st line) = ps_lines st \<and>
      ps_currentCharacter (parse_step st line) = '''' \<and>
      \<not> isCharacterName line) \<and>
   (ps_currentCharacter st0 = '''' \<and> (\<forall>l\<in>set ls. \<not> isCharacterName l) \<longrightarrow>
      ps_lines (parse_loop st0 ls) = ps_lines st0) \<and>
   (ps_lines (parse_step st1 line1) \<noteq> ps_lines st1 \<longrightarrow>
      isDialogue line1 \<and> ps_currentCharacter st1 \<noteq> '''' \<and>
      \<not> (isSceneHeading line1 \<or> isActionLine line1 \<or> isCharacterDescription line1) \<and>
      \<not> isCharacterName line1 \<and>
      ps_lines (parse_step st1 line1) = ps_lines st1 @
        [\<lparr>number = ps_lineNumber st1, character = ps_currentCharacter st1, dialogue = line1\<rparr>])"
proof -
  have a: "\<forall>l\<in>set (textLines script). l \<noteq> [] \<and> trim l = l"
    using textLines_trimmed by blast
  have b: "fst (parseDialogue script fileName) = ps_lines (parse_loop parse_init (textLines script))"
    by (simp add: parseDialogue_def Let_def)
  have c: "isSceneHeading line \<or> isActionLine line \<or> isCharacterDescription line \<longrightarrow>
      ps_lines (parse_step st line) = ps_lines st \<and>
      ps_currentCharacter (parse_step st line) = '''' \<and>
      \<not> isCharacterName line"
    using skip_not_name [of line] by (simp add: parse_step_def)
  have d: "ps_currentCharacter st0 = '''' \<and> (\<forall>l\<in>set ls. \<not> isCharacterName l) \<longrightarrow>
      ps_lines (parse_loop st0 ls) = ps_lines st0"
    using parse_loop_no_pending [of st0 ls] by blast
  have e: "ps_lines (parse_step st1 line1) \<noteq> ps_lines st1 \<longrightarrow>
      isDialogue line1 \<and> ps_currentCharacter st1 \<noteq> '''' \<and>
      \<not> (isSceneHeading line1 \<or> isActionLine line1 \<or> isCharacterDescription line1) \<and>
      \<not> isCharacterName line1 \<and>
      ps_lines (parse_step st1 line1) = ps_lines st1 @
        [\<lparr>number = ps_lineNumber st1, character = ps_currentCharacter st1, dialogue = line1\<rparr>]"
    by (auto simp: parse_step_def split: if_splits)
  from a b c d e show ?thesis by blast
qed

theorem parse_step_classification_witness:
  "isActionLine ''John sits down.'' \<and>
   ps_currentCharacter (parse_step (pending_state ''SARAH'') ''John sits down.'') = '''' \<and>
   ps_lines (parse_step (pending_state ''SARAH'') ''John sits down.'') = [] \<and>
   isDialogue ''What about you?'' \<and>
   ps_lines (parse_loop (pending_state '''') [''What about you?'']) = [] \<and>
   ps_lines (parse_step (pending_state ''JOHN'') ''What about you?'') =
     [\<lparr>number = 1, character = ''JOHN'', dialogue = ''What about you?''\<rparr>] \<and>
   fst (parseDialogue sample_script ''scene.txt'') = sample_lines"
  using parse_step_classification [where script = sample_script and fileName = "''scene.txt''"
      and line = "''John sits down.''" and st = "pending_state ''SARAH''"
      and ?st0.0 = "pending_state ''''" and ls = "[''What about you?'']"
      and ?st1.0 = "pending_state ''JOHN''" and ?line1.0 = "''What about you?''"]
  by (simp add: sample_classes sample_parse pending_state_def parse_step_def parse_loop_def
      parse_init_def)

section \<open>Live lines\<close>










section \<open>The walk through the lines\<close>

lemma sample_walk:
  "productionLineIndex (updateProductionInterface skipping_state) = 1"
  "productionLineIndex (fire (TimerFired 1) (updateProductionInterface skipping_state)) = 2"
  "productionLineIndex
     (run [TimerFired 1, TimerFired 2, TimerFired 3] (updateProductionInterface skipping_state)) = 3"
  "\<not> isProductionMode
     (run [TimerFired 1, TimerFired 2, TimerFired 3] (updateProductionInterface skipping_state))"
  "timers
     (run [TimerFired 1, TimerFired 2, TimerFired 3] (updateProductionInterface skipping_state)) = []"
  "productionLineIndex (advanceProductionLine skipping_state) = 1"
  "\<not> isProductionMode (updateProductionInterface (skipping_state\<lparr>productionLineIndex := 3\<rparr>))"
  "productionLineIndex (updateProductionInterface (skipping_state\<lparr>productionLineIndex := 3\<rparr>)) = 3"
  "timers (updateProductionInterface (skipping_state\<lparr>productionLineIndex := 3\<rparr>)) = []"
  unfolding skipping_state_def by code_simp+

text \<open>
  What holds of the walk whatever the interleaving: an advance adds exactly one to the
  production index; every event other than a click on Start or Stop leaves the index or
  adds one to it, so the index never moves back; and a display step taken at or beyond the
  number of lines turns production mode off, schedules nothing and plays nothing.
\<close>

lemma production_linear_walk:
  "productionLineIndex (advanceProductionLine s) = productionLineIndex s + 1 \<and>
   (\<not> resets e \<longrightarrow>
      productionLineIndex (fire e s) = productionLineIndex s \<or>
      productionLineIndex (fire e s) = productionLineIndex s + 1) \<and>
   ((\<forall>e\<in>set es. \<not> resets e) \<longrightarrow> productionLineIndex s \<le> productionLineIndex (run es s)) \<and>
   (length (dialogueLines s) \<le> productionLineIndex s \<longrightarrow>
      \<not> isProductionMode (updateProductionInterface s) \<and>
      productionLineIndex (updateProductionInterface s) = productionLineIndex s \<and>
      set (timers (updateProductionInterface s)) \<subseteq> set (timers s) \<and>
      playing (updateProductionInterface s) = playing s \<and>
      speechTimeout (updateProductionInterface s) = None \<and>
      recognition (updateProductionInterface s) \<noteq> Some True)"
proof -
  have a: "productionLineIndex (advanceProductionLine s) = productionLineIndex s + 1"
    by simp
  have b: "\<not> resets e \<longrightarrow>
      productionLineIndex (fire e s) = productionLineIndex s \<or>
      productionLineIndex (fire e s) = productionLineIndex s + 1"
    using idx_fire [of e s] by simp
  have c: "(\<forall>e\<in>set es. \<not> resets e) \<longrightarrow> productionLineIndex s \<le> productionLineIndex (run es s)"
    using idx_run [of es s] by blast
  have d: "length (dialogueLines s) \<le> productionLineIndex s \<longrightarrow>
      \<not> isProductionMode (updateProductionInterface s) \<and>
      productionLineIndex (updateProductionInterface s) = productionLineIndex s \<and>
      set (timers (updateProductionInterface s)) \<subseteq> set (timers s) \<and>
      playing (updateProductionInterface s) = playing s \<and>
      speechTimeout (updateProductionInterface s) = None \<and>
      recognition (updateProductionInterface s) \<noteq> Some True"
    by (auto simp: updateProductionInterface_def clearSpeechTimeout_def recognition_stop_def
        clearTimeout_def split: option.splits)
  from a b c d show ?thesis by blast
qed

lemma production_linear_walk_holds_at_sample:
  "productionLineIndex (advanceProductionLine skipping_state) = 1 \<and>
   productionLineIndex (updateProductionInterface skipping_state) = 1 \<and>
   productionLineIndex (fire (TimerFired 1) (updateProductionInterface skipping_state)) = 2 \<and>
   productionLineIndex
     (run [TimerFired 1, TimerFired 2, TimerFired 3] (updateProductionInterface skipping_state)) = 3 \<and>
   \<not> isProductionMode
     (run [TimerFired 1, TimerFired 2, TimerFired 3] (updateProductionInterface skipping_state)) \<and>
   timers
     (run [TimerFired 1, TimerFired 2, TimerFired 3] (updateProductionInterface skipping_state)) = [] \<and>
   \<not> isProductionMode (updateProductionInterface (skipping_state\<lparr>productionLineIndex := 3\<rparr>)) \<and>
   productionLineIndex (updateProductionInterface (skipping_state\<lparr>productionLineIndex := 3\<rparr>)) = 3 \<and>
   timers (updateProductionInterface (skipping_state\<lparr>productionLineIndex := 3\<rparr>)) = []"
  using production_linear_walk [of skipping_state "TimerFired 1" "[]"]
    production_linear_walk [of "updateProductionInterface skipping_state" "TimerFired 1"
      "[TimerFired 1, TimerFired 2, TimerFired 3]"]
    production_linear_walk [of "skipping_state\<lparr>productionLineIndex := 3\<rparr>" "TimerFired 1" "[]"]
  by (simp only: sample_walk simp_thms)

text \<open>
  C8 fails on the code. In the production of three lines, a transcript that matches
  SARAH's line arms the delayed advance and a transcript with a completion word advances
  at once; the delayed advance then advances again, and the two display steps that were
  scheduled both run at index 2: BOB's line is never displayed and JOHN's clip is started
  twice. With SARAH's line alone, the display step ends the production at index 1 and the
  delayed advance that is still pending moves the index to 2.
\<close>

theorem line_displayed_twice:
  "length (dialogueLines race_state) = 3 \<and>
   map observe (trace race_events race_state) =
     [(0, False, [], []),
      (0, True, [], ''Waiting for live speech...''),
      (0, True, [], ''Waiting for live speech...''),
      (0, True, [], ''Waiting for live speech...''),
      (0, True, [], ''Waiting for live speech...''),
      (1, True, [], ''Waiting for live speech...''),
      (2, True, [], ''Waiting for live speech...''),
      (2, True, [[7, 7]], ''Playing recorded audio''),
      (2, True, [[7, 7], [7, 7]], ''Playing recorded audio'')] \<and>
   length (dialogueLines short_state) = 1 \<and>
   map observe (trace short_events short_state) =
     [(0, False, [], []),
      (0, True, [], ''Waiting for live speech...''),
      (0, True, [], ''Waiting for live speech...''),
      (0, True, [], ''Waiting for live speech...''),
      (0, True, [], ''Waiting for live speech...''),
      (1, True, [], ''Waiting for live speech...''),
      (1, False, [], ''Waiting for live speech...''),
      (2, False, [], ''Waiting for live speech...'')]"
proof -
  have a: "length (dialogueLines race_state) = 3"
    unfolding race_state_def race_lines_def by code_simp
  have b: "map observe (trace race_events race_state) =
     [(0, False, [], []),
      (0, True, [], ''Waiting for live speech...''),
      (0, True, [], ''Waiting for live speech...''),
      (0, True, [], ''Waiting for live speech...''),
      (0, True, [], ''Waiting for live speech...''),
      (1, True, [], ''Waiting for live speech...''),
      (2, True, [], ''Waiting for live speech...''),
      (2, True, [[7, 7]], ''Playing recorded audio''),
      (2, True, [[7, 7], [7, 7]], ''Playing recorded audio'')]"
    unfolding race_events_def race_state_def race_lines_def by code_simp
  have c: "length (dialogueLines short_state) = 1"
    unfolding short_state_def race_state_def race_lines_def by code_simp
  have d: "map observe (trace short_events short_state) =
     [(0, False, [], []),
      (0, True, [], ''Waiting for live speech...''),
      (0, True, [], ''Waiting for live speech...''),
      (0, True, [], ''Waiting for live speech...''),
      (0, True, [], ''Waiting for live speech...''),
      (1, True, [], ''Waiting for live speech...''),
      (1, False, [], ''Waiting for live speech...''),
      (2, False, [], ''Waiting for live speech...'')]"
    unfolding short_events_def short_state_def race_state_def race_lines_def by code_simp
  from a b c d show ?thesis by (simp only: simp_thms)
qed

text \<open>
  C10: what \<open>startProduction\<close> does is the display step taken at index 0, whatever the
  index was before (after it the index is 0, or 1 when the first line is skipped at once);
  \<open>pauseProduction\<close> turns production mode off and changes nothing else. So a start
  after a pause is the same as a fresh start.
\<close>

theorem start_and_pause_production:
  "startProduction (s\<lparr>productionLineIndex := k\<rparr>) = startProduction s \<and>
   startProduction s = updateProductionInterface (s\<lparr>isProductionMode := True, productionLineIndex := 0\<rparr>) \<and>
   productionLineIndex (startProduction s) \<le> 1 \<and>
   \<not> isProductionMode (pauseProduction s) \<and>
   productionLineIndex (pauseProduction s) = productionLineIndex s \<and>
   (pauseProduction s)\<lparr>isProductionMode := isProductionMode s\<rparr> = s \<and>
   startProduction (pauseProduction s) = startProduction s"
proof -
  have "productionLineIndex (startProduction s) \<le> 1"
    using idx_update [of "s\<lparr>isProductionMode := True, productionLineIndex := 0\<rparr>"]
    by (auto simp: startProduction_def)
  then show ?thesis by (simp add: startProduction_def pauseProduction_def)
qed

theorem start_and_pause_production_witness:
  "productionLineIndex (pauseProduction (sample_state\<lparr>productionLineIndex := 2\<rparr>)) = 2 \<and>
   \<not> isProductionMode (pauseProduction (sample_state\<lparr>productionLineIndex := 2\<rparr>)) \<and>
   startProduction (pauseProduction (sample_state\<lparr>productionLineIndex := 2\<rparr>)) =
     startProduction sample_state \<and>
   productionLineIndex (startProduction (pauseProduction (sample_state\<lparr>productionLineIndex := 2\<rparr>))) = 0 \<and>
   playing (startProduction (pauseProduction (sample_state\<lparr>productionLineIndex := 2\<rparr>))) =
     [[82, 73, 70, 70]]"
proof -
  have a: "startProduction (pauseProduction (sample_state\<lparr>productionLineIndex := 2\<rparr>)) =
           startProduction sample_state"
    using start_and_pause_production [where s = "sample_state\<lparr>productionLineIndex := 2\<rparr>" and k = 0]
      start_and_pause_production [where s = sample_state and k = 2]
    by simp
  have b: "productionLineIndex (startProduction sample_state) = 0"
    "playing (startProduction sample_state) = [[82, 73, 70, 70]]"
    by (simp_all add: startProduction_def updateProductionInterface_def Let_def storedClip_def
        playAudioBlob_def sample_fields sample_lines_nth)
  show ?thesis unfolding a using b by (simp add: pauseProduction_def)
qed

section \<open>The recording session\<close>

lemma indexOf_first:
  "c \<notin> set pre \<Longrightarrow> indexOf (map Some pre @ Some c # rest) (Some c) = int (length pre)"
  by (induction pre) (auto simp: Let_def)

lemma numbered_nth:
  assumes "map number ls = [1..<Suc (length ls)]" and "l \<in> set ls"
  shows "1 \<le> number l \<and> ls ! (number l - 1) = l"
proof -
  from assms(2) obtain i where i: "i < length ls" "ls ! i = l"
    by (auto simp: in_set_conv_nth)
  from i(1) have "map number ls ! i = number (ls ! i)" by simp
  moreover from i(1) have "[1..<Suc (length ls)] ! i = 1 + i" by (simp del: upt_Suc)
  ultimately have "number l = 1 + i" using assms(1) i(2) by simp
  with i(2) show ?thesis by simp
qed

lemma characterLines_current:
  "currentCharacter s = Some c \<Longrightarrow>
   characterLines s = filter (\<lambda>line. character line = c) (dialogueLines s)"
  by (simp add: characterLines_def)

lemma onstop_result:
  assumes "currentLineIndex s < length (characterLines s)"
    and "currentCharacter s' = Some c"
    and "audioRecordings s' c = Some m"
  shows "mediaRecorder_onstop webAudio selectedEffect s s' =
           Inr (s'\<lparr>audioRecordings := (audioRecordings s')(c \<mapsto>
                  m(number (characterLines s ! currentLineIndex s) \<mapsto>
                    processedAudioBlob webAudio selectedEffect (concat (audioChunks s))))\<rparr>)"
  using assms by (simp add: mediaRecorder_onstop_def onstop_store_def Let_def)

lemma sample_recording_fields:
  "dialogueLines sample_recording = sample_lines"
  "recordCharacters sample_recording = [''JOHN'', ''SARAH'']"
  "audioRecordings sample_recording = [''JOHN'' \<mapsto> Map.empty, ''SARAH'' \<mapsto> Map.empty]"
  "currentCharacter sample_recording = Some ''JOHN''"
  "currentLineIndex sample_recording = 1"
  "audioChunks sample_recording = [[82, 73], [70, 70]]"
  by (simp_all add: sample_recording_def sample_state_def)

lemma characterLines_frame [simp]:
  "characterLines (s\<lparr>currentLineIndex := k\<rparr>) = characterLines s"
  "characterLines (s\<lparr>audioChunks := a\<rparr>) = characterLines s"
  by (simp_all add: characterLines_def)

lemma sample_characterLines:
  "characterLines sample_recording = [sample_lines ! 0, sample_lines ! 2]"
  by (simp add: characterLines_def sample_recording_fields sample_lines_def)

text \<open>
  The recording walk when nothing comes between the stop and the store: the lines shown
  for the current character are the dialogue lines of that character, in script order;
  \<open>nextLine\<close> moves to the next of them, then to the first line of the next record
  character, and finishes after the last one. If the current character is the same when
  the store is made, the clip is stored under that character and the \<open>number\<close> of the
  line, which for a parsed script is the line's position in the full dialogue sequence.
\<close>

lemma recording_walk_and_key:
  assumes "currentCharacter s = Some c"
    and "currentLineIndex s < length (characterLines s)"
    and "currentCharacter s' = Some c"
    and "audioRecordings s' c = Some m"
  shows "subseq (characterLines s) (dialogueLines s) \<and>
         set (characterLines s) = {line \<in> set (dialogueLines s). character line = c} \<and>
         updateRecordingInterface s = Shown (characterLines s ! currentLineIndex s) \<and>
         (currentLineIndex s + 1 < length (characterLines s) \<longrightarrow>
            nextLine s = (s\<lparr>currentLineIndex := currentLineIndex s + 1\<rparr>,
                          Shown (characterLines s ! (currentLineIndex s + 1)))) \<and>
         (\<not> currentLineIndex s + 1 < length (characterLines s) \<and>
          recordCharacters s = pre @ c # c' # post \<and> c \<notin> set pre \<longrightarrow>
            fst (nextLine s) = s\<lparr>currentCharacter := Some c', currentLineIndex := 0\<rparr>) \<and>
         (\<not> currentLineIndex s + 1 < length (characterLines s) \<and>
          recordCharacters s = pre @ [c] \<and> c \<notin> set pre \<longrightarrow>
            nextLine s = (s, Finished)) \<and>
         mediaRecorder_onstop webAudio selectedEffect s s' =
           Inr (s'\<lparr>audioRecordings := (audioRecordings s')(c \<mapsto>
                  m(number (characterLines s ! currentLineIndex s) \<mapsto>
                    processedAudioBlob webAudio selectedEffect (concat (audioChunks s))))\<rparr>) \<and>
         (dialogueLines s = fst (parseDialogue script fileName) \<longrightarrow>
            1 \<le> number (characterLines s ! currentLineIndex s) \<and>
            dialogueLines s ! (number (characterLines s ! currentLineIndex s) - 1) =
              characterLines s ! currentLineIndex s)"
proof -
  let ?cl = "characterLines s"
  let ?i = "currentLineIndex s"
  have cl: "?cl = filter (\<lambda>line. character line = c) (dialogueLines s)"
    by (rule characterLines_current [OF assms(1)])
  have a: "subseq ?cl (dialogueLines s)"
    unfolding cl by simp
  have b: "set ?cl = {line \<in> set (dialogueLines s). character line = c}"
    unfolding cl by auto
  have d: "updateRecordingInterface s = Shown (?cl ! ?i)"
    using assms(2) by (auto simp: updateRecordingInterface_def)
  have cl_idx: "characterLines (s\<lparr>currentLineIndex := k\<rparr>) = ?cl" for k
    by (simp add: characterLines_def)
  have e: "?i + 1 < length ?cl \<longrightarrow>
            nextLine s = (s\<lparr>currentLineIndex := ?i + 1\<rparr>, Shown (?cl ! (?i + 1)))"
    by (auto simp: nextLine_def Let_def updateRecordingInterface_def cl_idx)
  have f: "\<not> ?i + 1 < length ?cl \<and> recordCharacters s = pre @ c # c' # post \<and> c \<notin> set pre \<longrightarrow>
            fst (nextLine s) = s\<lparr>currentCharacter := Some c', currentLineIndex := 0\<rparr>"
    using assms(1) by (auto simp: nextLine_def Let_def indexOf_first nth_append)
  have g: "\<not> ?i + 1 < length ?cl \<and> recordCharacters s = pre @ [c] \<and> c \<notin> set pre \<longrightarrow>
            nextLine s = (s, Finished)"
    using assms(1) by (auto simp: nextLine_def Let_def indexOf_first)
  have h: "mediaRecorder_onstop webAudio selectedEffect s s' =
           Inr (s'\<lparr>audioRecordings := (audioRecordings s')(c \<mapsto>
                  m(number (?cl ! ?i) \<mapsto>
                    processedAudioBlob webAudio selectedEffect (concat (audioChunks s))))\<rparr>)"
    by (rule onstop_result [OF assms(2-4)])
  have k: "dialogueLines s = fst (parseDialogue script fileName) \<longrightarrow>
            1 \<le> number (?cl ! ?i) \<and> dialogueLines s ! (number (?cl ! ?i) - 1) = ?cl ! ?i"
  proof
    assume p: "dialogueLines s = fst (parseDialogue script fileName)"
    have "?cl ! ?i \<in> set ?cl" using assms(2) by simp
    then have m: "?cl ! ?i \<in> set (dialogueLines s)" using b by simp
    have "map number (dialogueLines s) = [1..<Suc (length (dialogueLines s))]"
      using parse_inv_result [of script] unfolding p
      by (simp add: parseDialogue_def parse_inv_def Let_def)
    from numbered_nth [OF this m] show
      "1 \<le> number (?cl ! ?i) \<and> dialogueLines s ! (number (?cl ! ?i) - 1) = ?cl ! ?i" .
  qed
  from a b d e f g h k show ?thesis by blast
qed

lemma recording_walk_and_key_holds_at_sample:
  "characterLines sample_recording ! 1 = sample_lines ! 2 \<and>
   number (sample_lines ! 2) = 3 \<and>
   map_sum id (\<lambda>t. storedClip t (sample_lines ! 2))
     (mediaRecorder_onstop doublingAudio ''none'' sample_recording sample_recording) =
     Inr (Some [82, 73, 70, 70]) \<and>
   fst (nextLine sample_recording) =
     sample_recording\<lparr>currentCharacter := Some ''SARAH'', currentLineIndex := 0\<rparr> \<and>
   currentLineIndex (fst (nextLine (sample_recording\<lparr>currentLineIndex := 0\<rparr>))) = 1 \<and>
   snd (nextLine (sample_recording\<lparr>currentLineIndex := 0\<rparr>)) = Shown (sample_lines ! 2) \<and>
   dialogueLines sample_recording ! (3 - 1) = sample_lines ! 2"
  using recording_walk_and_key [where s = sample_recording and c = "''JOHN''"
      and s' = sample_recording and m = Map.empty and pre = "[]" and c' = "''SARAH''"
      and post = "[]" and webAudio = doublingAudio and selectedEffect = "''none''"
      and script = sample_script and fileName = "''scene.txt''"]
    recording_walk_and_key [where s = "sample_recording\<lparr>currentLineIndex := 0\<rparr>"
      and c = "''JOHN''" and s' = sample_recording and m = Map.empty and pre = "[]"
      and c' = "''SARAH''" and post = "[]" and webAudio = doublingAudio
      and selectedEffect = "''none''" and script = sample_script and fileName = "''scene.txt''"]
  by (simp add: sample_recording_fields sample_characterLines sample_lines_nth sample_parse
      storedClip_def processedAudioBlob_def)

text \<open>
  Under the same condition, with an effect selected, the clip stored is the post-processed
  clip when post-processing succeeds and the original clip when it fails; an empty
  recording makes it fail.
\<close>

lemma effect_fallback:
  assumes "selectedEffect \<noteq> ''none''"
    and "currentCharacter s = Some c"
    and "currentLineIndex s < length (characterLines s)"
    and "currentCharacter s' = Some c"
    and "audioRecordings s' c = Some m"
  shows "mediaRecorder_onstop webAudio selectedEffect s s' =
           Inr (s'\<lparr>audioRecordings := (audioRecordings s')(c \<mapsto>
                  m(number (characterLines s ! currentLineIndex s) \<mapsto>
                    (case applyPostProcessingEffects webAudio (concat (audioChunks s)) selectedEffect of
                       Inr processed \<Rightarrow> processed
                     | Inl err \<Rightarrow> concat (audioChunks s))))\<rparr>) \<and>
         (concat (audioChunks s) = [] \<longrightarrow>
            applyPostProcessingEffects webAudio (concat (audioChunks s)) selectedEffect =
              Inl ''Audio blob is empty'')"
  using assms onstop_result [OF assms(3-5), of webAudio selectedEffect]
  by (simp add: processedAudioBlob_def applyPostProcessingEffects_def)

lemma effect_fallback_holds_at_sample:
  "map_sum id (\<lambda>t. storedClip t (sample_lines ! 2))
     (mediaRecorder_onstop failingAudio ''male'' sample_recording sample_recording) =
     Inr (Some [82, 73, 70, 70]) \<and>
   map_sum id (\<lambda>t. storedClip t (sample_lines ! 2))
     (mediaRecorder_onstop doublingAudio ''male'' sample_recording sample_recording) =
     Inr (Some [164, 146, 140, 140]) \<and>
   map_sum id (\<lambda>t. storedClip t (sample_lines ! 2))
     (mediaRecorder_onstop doublingAudio ''male'' (sample_recording\<lparr>audioChunks := []\<rparr>)
        sample_recording) =
     Inr (Some [])"
  using effect_fallback [where s = sample_recording and c = "''JOHN''" and s' = sample_recording
      and m = Map.empty and webAudio = failingAudio and selectedEffect = "''male''"]
    effect_fallback [where s = sample_recording and c = "''JOHN''" and s' = sample_recording
      and m = Map.empty and webAudio = doublingAudio and selectedEffect = "''male''"]
    effect_fallback [where s = "sample_recording\<lparr>audioChunks := []\<rparr>" and c = "''JOHN''"
      and s' = sample_recording and m = Map.empty and webAudio = doublingAudio
      and selectedEffect = "''male''"]
  by (simp add: sample_recording_fields sample_characterLines sample_lines_nth storedClip_def
      applyPostProcessingEffects_def failingAudio_def doublingAudio_def)

text \<open>
  C6 fails on the code. JOHN and SARAH are recorded with an effect; the recording of JOHN's
  last line, number 3, is stopped. The handler takes the line before it awaits the
  post-processing and reads the current character after it; in between, the timer armed
  by \<open>stopRecording\<close> has fired and \<open>nextLine\<close> has moved on to SARAH. The processed
  clip is filed under SARAH and 3, and nothing is stored under JOHN and 3.
\<close>

theorem clip_filed_under_next_character:
  "currentCharacter recording_stopped = Some ''JOHN'' \<and>
   characterLines recording_stopped ! currentLineIndex recording_stopped = sample_lines ! 2 \<and>
   timers recording_stopped =
     [\<lparr>timer_id = 1, timer_delay = 1000, timer_action = AutoNextLine\<rparr>] \<and>
   currentCharacter recording_moved_on = Some ''SARAH'' \<and>
   map_sum id
     (\<lambda>t. (storedClip t (sample_lines ! 2),
           Option.bind (audioRecordings t ''SARAH'') (\<lambda>m. m 3)))
     (mediaRecorder_onstop doublingAudio ''male'' recording_stopped recording_moved_on) =
     Inr (None, Some [164, 146, 140, 140])"
  unfolding recording_stopped_def recording_moved_on_def by code_simp

text \<open>
  C7 fails on the code, by the same interleaving: post-processing fails, the handler falls
  back to the original clip, and that clip is filed under SARAH and 3; no clip is stored
  for JOHN's line 3, the line that was recorded.
\<close>

theorem fallback_clip_filed_under_next_character:
  "applyPostProcessingEffects failingAudio (concat (audioChunks recording_stopped)) ''male'' =
     Inl ''EncodingError'' \<and>
   currentCharacter recording_stopped = Some ''JOHN'' \<and>
   number (characterLines recording_stopped ! currentLineIndex recording_stopped) = 3 \<and>
   currentCharacter recording_moved_on = Some ''SARAH'' \<and>
   map_sum id
     (\<lambda>t. (Option.bind (audioRecordings t ''JOHN'') (\<lambda>m. m 3),
           Option.bind (audioRecordings t ''SARAH'') (\<lambda>m. m 3)))
     (mediaRecorder_onstop failingAudio ''male'' recording_stopped recording_moved_on) =
     Inr (None, Some [82, 73, 70, 70])"
  unfolding recording_stopped_def recording_moved_on_def by code_simp

end
